theory Spec2Isabelle
  imports Main "HOL-Library.Word"
begin

unbundle bit_operations_syntax

section \<open>go-coinspaid: the client library, embedded\<close>

text \<open>
  The embedding follows the Go source of package coinspaid. A Go string and a
  \<^verbatim>\<open>[]byte\<close> are both sequences of bytes, here \<^typ>\<open>string\<close> (a list of
  8-bit characters). A Go function returning \<^verbatim>\<open>(*T, error)\<close> with either a
  nil pointer and an error, or a value and a nil error, returns \<open>error + T\<close>.
  A method that writes through its pointer receiver takes the old value and
  returns the new one together with its \<^verbatim>\<open>error\<close> result, \<open>None\<close> for nil.
\<close>

subsection \<open>Client and constructor\<close>

text \<open>\<^verbatim>\<open>http.Client{Timeout: ...}\<close>; a \<^verbatim>\<open>time.Duration\<close> counts nanoseconds.\<close>

record http_Client =
  Timeout :: int

definition time_Second :: int where
  "time_Second = 1000000000"

text \<open>
  \<^verbatim>\<open>type Client struct { apiKey, apiSecret string; BaseURL *url.URL; httpClient *http.Client }\<close>.
  The type \<open>'u\<close> stands for \<^verbatim>\<open>url.URL\<close> of the standard library.
\<close>

record 'u Client =
  apiKey :: string
  apiSecret :: string
  BaseURL :: 'u
  httpClient :: http_Client

text \<open>The values of Go's \<^verbatim>\<open>error\<close> interface that NewClient produces.\<close>

datatype new_error = errors_New string

text \<open>
  NewClient. The standard library's \<^verbatim>\<open>url.Parse\<close> is the parameter
  \<open>url_Parse\<close>; its error value is dropped by the source.
\<close>

definition NewClient ::
  "(string \<Rightarrow> 'e + 'u) \<Rightarrow> string \<Rightarrow> string \<Rightarrow> string \<Rightarrow> new_error + 'u Client" where
  "NewClient url_Parse apiKey' apiSecret' baseEndpoint =
     (if apiKey' = [] \<or> apiSecret' = [] \<or> baseEndpoint = []
      then Inl (errors_New ''apiKey, apiSecret and baseEndpoint are required to create a Client'')
      else
        let httpClient' = \<lparr>Timeout = time_Second * 10\<rparr> in
        case url_Parse baseEndpoint of
          Inl err \<Rightarrow> Inl (errors_New ''can't parse base endpoint'')
        | Inr baseURL \<Rightarrow>
            Inr \<lparr>apiKey = apiKey', apiSecret = apiSecret',
                 BaseURL = baseURL, httpClient = httpClient'\<rparr>)"

subsection \<open>The withdrawal identifier\<close>

text \<open>
  \<^verbatim>\<open>type ID string\<close> with
  \<^verbatim>\<open>func (id *ID) UnmarshalJSON(data []byte) error { *id = ID(data); return nil }\<close>.
\<close>

type_synonym ID = string

definition ID_UnmarshalJSON :: "ID \<Rightarrow> string \<Rightarrow> ID \<times> unit option" where
  "ID_UnmarshalJSON old data = (data, None)"


section \<open>Properties\<close>

subsection \<open>NewClient\<close>

text \<open>
  Claim C6. NewClient returns an error, and no client, exactly when one of
  its three arguments is the empty string or the endpoint does not parse as a
  URL; otherwise it returns a client that holds the two credentials and the
  parsed base URL (and the ten-second transport configuration). NewClient
  takes no transport and performs no request.
\<close>

theorem NewClient_error_iff:
  "(isl (NewClient url_Parse k s e) \<longleftrightarrow> (k = [] \<or> s = [] \<or> e = [] \<or> isl (url_Parse e)))
   \<and> (\<forall>u. k \<noteq> [] \<and> s \<noteq> [] \<and> e \<noteq> [] \<and> url_Parse e = Inr u \<longrightarrow>
          NewClient url_Parse k s e =
            Inr \<lparr>apiKey = k, apiSecret = s, BaseURL = u,
                 httpClient = \<lparr>Timeout = 10000000000\<rparr>\<rparr>)"
  by (auto simp: NewClient_def time_Second_def split: sum.splits)

theorem NewClient_error_iff_witness:
  "''key'' \<noteq> [] \<and> ''secret'' \<noteq> [] \<and> ''https://app.coinspaid.com/api/v2/'' \<noteq> []
   \<and> (Inr :: string \<Rightarrow> unit + string) ''https://app.coinspaid.com/api/v2/''
        = Inr ''https://app.coinspaid.com/api/v2/''
   \<and> NewClient (Inr :: string \<Rightarrow> unit + string) ''key'' ''secret''
        ''https://app.coinspaid.com/api/v2/'' =
      Inr \<lparr>apiKey = ''key'', apiSecret = ''secret'',
           BaseURL = ''https://app.coinspaid.com/api/v2/'',
           httpClient = \<lparr>Timeout = 10000000000\<rparr>\<rparr>
   \<and> isl (NewClient (Inr :: string \<Rightarrow> unit + string) [] ''secret''
        ''https://app.coinspaid.com/api/v2/'')
   \<and> isl (NewClient (\<lambda>s. Inl () :: unit + string) ''key'' ''secret'' ''%zz'')"
  using NewClient_error_iff [of "Inr :: string \<Rightarrow> unit + string" "''key''" "''secret''"
      "''https://app.coinspaid.com/api/v2/''"]
    NewClient_error_iff [of "Inr :: string \<Rightarrow> unit + string" "[]" "''secret''"
      "''https://app.coinspaid.com/api/v2/''"]
    NewClient_error_iff [of "\<lambda>s. Inl () :: unit + string" "''key''" "''secret''" "''%zz''"]
  by simp

subsection \<open>ID.UnmarshalJSON\<close>

text \<open>
  Claim C10. ID.UnmarshalJSON never fails and stores the bytes it is given
  verbatim: the JSON number token 1 becomes the one-character string "1", and
  the JSON string token "abc" becomes a five-character value that keeps both
  quote characters.
\<close>

theorem ID_UnmarshalJSON_verbatim:
  "ID_UnmarshalJSON old data = (data, None)
   \<and> ID_UnmarshalJSON old ''1'' = (''1'', None)
   \<and> length (fst (ID_UnmarshalJSON old ''1'')) = 1
   \<and> fst (ID_UnmarshalJSON old [CHR 0x22, CHR ''a'', CHR ''b'', CHR ''c'', CHR 0x22])
       = [CHR 0x22, CHR ''a'', CHR ''b'', CHR ''c'', CHR 0x22]
   \<and> length (fst (ID_UnmarshalJSON old [CHR 0x22, CHR ''a'', CHR ''b'', CHR ''c'', CHR 0x22])) = 5"
  by (simp add: ID_UnmarshalJSON_def)

end
